theory Spec2Isabelle
  imports Main "HOL-Library.Word"
begin

section \<open>TomatoClock: the timer state machine and the border progress bar\<close>

text \<open>
  A shallow embedding of \<^verbatim>\<open>TomatoClock.ino\<close>. The sketch runs on a 32-bit target:
  \<^verbatim>\<open>unsigned long\<close> and \<^verbatim>\<open>int\<close> are 32 bits wide. Both are modelled as 32-bit words;
  an \<^verbatim>\<open>int\<close> is read through \<open>sint\<close> and compared with the signed orders
  \<open>\<le>s\<close> and \<open><s\<close>, an \<^verbatim>\<open>unsigned long\<close> through \<open>unat\<close> and the plain orders.
  Signed overflow, undefined in C++, wraps in the model as the target's arithmetic does.
  Each call of \<^verbatim>\<open>millis()\<close> is a parameter of the function that makes it.
\<close>

subsection \<open>Data\<close>

type_synonym u32 = "32 word"
type_synonym i32 = "32 word"

datatype TimerState = STOPPED | RUNNING | PAUSED

text \<open>
  What the sketch sends to its collaborators: a tone to the speaker, a screen to the
  canvas. \<open>DrawUI\<close> carries the argument of \<^verbatim>\<open>drawUI\<close>; everything else that screen
  shows is read from the globals at the moment of the call.
\<close>

datatype event = Tone nat nat | DrawSplash | DrawUI i32 | DrawHelp

text \<open>The globals of the sketch, and the log of what it has emitted.\<close>

record world =
  state :: TimerState
  startTime :: u32
  pausedTime :: u32
  focusDuration :: i32
  breakDuration :: i32
  onBreak :: bool
  sessionsCompleted :: i32
  autoStartNext :: bool
  showHelp :: bool
  showSplash :: bool
  splashStartTime :: u32
  statusMessage :: string
  out :: "event list"

text \<open>
  The initialisers of lines 23 to 36. \<^verbatim>\<open>0.5 * 60\<close> is the double 30.0 and
  \<^verbatim>\<open>0.2 * 60\<close> the double 12.0; the conversion to \<^verbatim>\<open>int\<close> gives 30 and 12.
\<close>

definition initial :: world where
  "initial = \<lparr> state = STOPPED, startTime = 0, pausedTime = 0,
       focusDuration = 30, breakDuration = 12, onBreak = False,
       sessionsCompleted = 0, autoStartNext = False, showHelp = False,
       showSplash = True, splashStartTime = 0,
       statusMessage = ''[S]tart Focus'', out = [] \<rparr>"

subsection \<open>Drawing\<close>

definition drawSplash :: "world \<Rightarrow> world" where
  "drawSplash w = w\<lparr>out := out w @ [DrawSplash]\<rparr>"

definition drawUI :: "i32 \<Rightarrow> world \<Rightarrow> world" where
  "drawUI remaining w = w\<lparr>out := out w @ [DrawUI remaining]\<rparr>"

definition drawHelp :: "world \<Rightarrow> world" where
  "drawHelp w = w\<lparr>out := out w @ [DrawHelp]\<rparr>"

text \<open>
  The border bar of \<^verbatim>\<open>drawUI\<close>, lines 88 to 129, from the value of
  \<^verbatim>\<open>filledLength\<close> after line 98 on. The values are C \<^verbatim>\<open>int\<close>s; no step can
  overflow (a segment is subtracted only from a positive length that is at least as
  large), so they are modelled as \<open>int\<close>. An edge that is not drawn has length 0.
\<close>

definition borderThickness :: int where "borderThickness = 6"
definition screenWidth :: int where "screenWidth = 240"
definition screenHeight :: int where "screenHeight = 135"

definition totalPerimeter :: int where
  "totalPerimeter = 2 * (screenWidth + screenHeight) - 4 * borderThickness"

text \<open>One edge: the segment drawn, and \<^verbatim>\<open>filledLength\<close> after it.\<close>

definition edge :: "int \<Rightarrow> int \<Rightarrow> int \<times> int" where
  "edge filledLength cap =
     (if filledLength > 0
      then (let segment = min filledLength cap in (segment, filledLength - segment))
      else (0, filledLength))"

definition borderSegments :: "int \<Rightarrow> int \<times> int \<times> int \<times> int" where
  "borderSegments filledLength =
     (let (topSeg, f1) = edge filledLength (screenWidth - borderThickness);
          (rightSeg, f2) = edge f1 (screenHeight - borderThickness);
          (bottomSeg, f3) = edge f2 (screenWidth - borderThickness);
          (leftSeg, f4) = edge f3 (screenHeight - 2 * borderThickness)
      in (topSeg, rightSeg, bottomSeg, leftSeg))"

definition segmentsTotal :: "int \<times> int \<times> int \<times> int \<Rightarrow> int" where
  "segmentsTotal s =
     (case s of (topSeg, rightSeg, bottomSeg, leftSeg) \<Rightarrow> topSeg + rightSeg + bottomSeg + leftSeg)"

subsection \<open>The timer operations\<close>

text \<open>\<^verbatim>\<open>onBreak ? breakDuration : focusDuration\<close>, as it occurs throughout.\<close>

definition currentDuration :: "world \<Rightarrow> i32" where
  "currentDuration w = (if onBreak w then breakDuration w else focusDuration w)"

definition resetTimer :: "u32 \<Rightarrow> world \<Rightarrow> world" where
  "resetTimer now w =
     (let w1 = w\<lparr>state := STOPPED, onBreak := False, startTime := now,
                  statusMessage := ''[S]tart Focus''\<rparr>
      in drawUI (focusDuration w1) w1)"

definition startTimer :: "u32 \<Rightarrow> world \<Rightarrow> world" where
  "startTimer now w =
     (if state w = STOPPED \<or> state w = PAUSED
      then (let w1 = (if state w = PAUSED then w\<lparr>startTime := now - pausedTime w\<rparr>
                      else w\<lparr>startTime := now\<rparr>)
            in w1\<lparr>state := RUNNING,
                  statusMessage := (if onBreak w1 then ''Relax Mode'' else ''Focus Mode'')\<rparr>)
      else w)"

definition pauseTimer :: "u32 \<Rightarrow> world \<Rightarrow> world" where
  "pauseTimer now w =
     (if state w = RUNNING
      then w\<lparr>pausedTime := now - startTime w, state := PAUSED,
              statusMessage := ''Paused. [S]tart''\<rparr>
      else w)"

text \<open>Three tones; the three one-second delays show in the next clock reading.\<close>

definition playAlert :: "world \<Rightarrow> world" where
  "playAlert w = w\<lparr>out := out w @ replicate 3 (Tone 1000 300)\<rparr>"

text \<open>\<^verbatim>\<open>setup()\<close>, as far as it touches the globals and the canvas.\<close>

definition setup_sketch :: "u32 \<Rightarrow> world \<Rightarrow> world" where
  "setup_sketch now w = drawSplash (w\<lparr>splashStartTime := now\<rparr>)"

subsection \<open>The key commands of \<^verbatim>\<open>loop\<close>\<close>

text \<open>
  One round of the loop over \<^verbatim>\<open>keys.word\<close>, lines 237 to 258: the world and the
  flag \<^verbatim>\<open>recognized\<close> before and after one character.
\<close>

definition keyCommand :: "u32 \<Rightarrow> char \<Rightarrow> world \<times> bool \<Rightarrow> world \<times> bool" where
  "keyCommand now c wr =
     (let w = fst wr; recognized = snd wr in
      if c = CHR ''S'' \<or> c = CHR ''s'' then (startTimer now w, True)
      else if c = CHR ''P'' \<or> c = CHR ''p'' then (pauseTimer now w, True)
      else if c = CHR ''R'' \<or> c = CHR ''r'' then (resetTimer now w, True)
      else if c = CHR ''A'' \<or> c = CHR ''a'' then
        (let w1 = w\<lparr>autoStartNext := \<not> autoStartNext w\<rparr>;
             w2 = w1\<lparr>statusMessage :=
                      (if autoStartNext w1 then ''Auto-start: ON'' else ''Auto-start: OFF'')\<rparr>
         in (drawUI (currentDuration w2) w2, True))
      else if c = CHR ''+'' \<and> state w = STOPPED then
        (let w1 = (if \<not> onBreak w then w\<lparr>focusDuration := focusDuration w + 60\<rparr>
                   else w\<lparr>breakDuration := breakDuration w + 60\<rparr>)
         in (drawUI (currentDuration w1) w1, True))
      else if c = CHR ''-'' \<and> state w = STOPPED then
        (let w1 = (if \<not> onBreak w \<and> 60 <s focusDuration w
                   then w\<lparr>focusDuration := focusDuration w - 60\<rparr>
                   else if onBreak w \<and> 60 <s breakDuration w
                   then w\<lparr>breakDuration := breakDuration w - 60\<rparr>
                   else w)
         in (drawUI (currentDuration w1) w1, True))
      else (w, recognized))"

text \<open>Lines 234 to 264: all the characters of one key event, then the help overlay.\<close>

definition handleKeys :: "u32 \<Rightarrow> char list \<Rightarrow> world \<Rightarrow> world" where
  "handleKeys now word w =
     (let wr = foldl (\<lambda>acc c. keyCommand now c acc) (w, False) word
      in if \<not> snd wr then drawHelp ((fst wr)\<lparr>showHelp := True\<rparr>) else fst wr)"

subsection \<open>The countdown of \<^verbatim>\<open>loop\<close>\<close>

text \<open>
  Line 268: the unsigned difference of two clock readings, divided by 1000. The
  quotient is below \<open>2 ^ 31\<close>, so its conversion to \<^verbatim>\<open>int\<close> keeps the value.
\<close>

definition elapsed :: "u32 \<Rightarrow> world \<Rightarrow> i32" where
  "elapsed now w = (now - startTime w) div 1000"

text \<open>Line 269.\<close>

definition remaining :: "u32 \<Rightarrow> world \<Rightarrow> i32" where
  "remaining now w = currentDuration w - elapsed now w"

text \<open>Lines 272 to 283, the body of \<^verbatim>\<open>if (remaining <= 0)\<close>; \<open>now'\<close> is the clock read
  at line 277, after the alert has returned.\<close>

definition phaseComplete :: "u32 \<Rightarrow> world \<Rightarrow> world" where
  "phaseComplete now' w =
     (let w1 = playAlert w;
          w2 = w1\<lparr>onBreak := \<not> onBreak w1\<rparr>;
          w3 = (if \<not> onBreak w2 then w2\<lparr>sessionsCompleted := sessionsCompleted w2 + 1\<rparr>
                else w2)
      in if autoStartNext w3
         then w3\<lparr>startTime := now', state := RUNNING,
                 statusMessage := (if onBreak w3 then ''Relax Mode'' else ''Focus Mode'')\<rparr>
         else w3\<lparr>state := STOPPED,
                 statusMessage := (if onBreak w3 then ''[S]tart Relax'' else ''[S]tart Focus'')\<rparr>)"

text \<open>Lines 267 to 289; \<open>now\<close> is the clock read at line 268.\<close>

definition tick :: "u32 \<Rightarrow> u32 \<Rightarrow> world \<Rightarrow> world" where
  "tick now now' w =
     (if state w = RUNNING then
        (let r = remaining now w
         in drawUI r (if r \<le>s 0 then phaseComplete now' w else w))
      else if state w = PAUSED then
        drawUI (currentDuration w - pausedTime w div 1000) w
      else w)"

subsection \<open>One iteration of \<^verbatim>\<open>loop\<close>\<close>

text \<open>
  What one iteration reads from outside: the key event (\<open>None\<close> when the keyboard
  reports no change or no key pressed, else the characters of \<^verbatim>\<open>keys.word\<close>), the
  clock as read up to line 268, and the clock as read at line 277.
\<close>

record input =
  keys :: "char list option"
  clock :: u32
  clockAfterAlert :: u32

definition loop :: "input \<Rightarrow> world \<Rightarrow> world" where
  "loop i w =
     (let w1 = (if showSplash w \<and> 3000 < clock i - splashStartTime w
                then resetTimer (clock i) (w\<lparr>showSplash := False\<rparr>) else w)
      in if showSplash w1 then w1
         else (case keys i of
                 None \<Rightarrow> tick (clock i) (clockAfterAlert i) w1
               | Some word \<Rightarrow>
                   if showHelp w1
                   then drawUI (currentDuration w1) (w1\<lparr>showHelp := False\<rparr>)
                   else tick (clock i) (clockAfterAlert i) (handleKeys (clock i) word w1)))"

text \<open>The sketch from power-on: \<^verbatim>\<open>setup()\<close>, then one \<^verbatim>\<open>loop\<close> per input.\<close>

definition run :: "u32 \<Rightarrow> input list \<Rightarrow> world" where
  "run t0 is = foldl (\<lambda>w i. loop i w) (setup_sketch t0 initial) is"

subsection \<open>Reading the log\<close>

definition isTone :: "event \<Rightarrow> bool" where
  "isTone e = (case e of Tone f d \<Rightarrow> True | DrawSplash \<Rightarrow> False
               | DrawUI r \<Rightarrow> False | DrawHelp \<Rightarrow> False)"

subsection \<open>Example runs\<close>

text \<open>
  Inputs and worlds reached from power-on, used where a statement is evaluated at a
  concrete point. The splash screen ends with the first iteration later than 3000 ms.
\<close>

definition idle :: "u32 \<Rightarrow> u32 \<Rightarrow> input" where
  "idle t t' = \<lparr>keys = None, clock = t, clockAfterAlert = t'\<rparr>"

definition press :: "char list \<Rightarrow> u32 \<Rightarrow> input" where
  "press cs t = \<lparr>keys = Some cs, clock = t, clockAfterAlert = t\<rparr>"

definition exStopped :: world where
  "exStopped = run 0 [idle 3001 3001]"

definition exFocusRunning :: world where
  "exFocusRunning = run 0 [idle 3001 3001, press ''s'' 4000]"

definition exAutoRunning :: world where
  "exAutoRunning = run 0 [idle 3001 3001, press ''a'' 3500, press ''s'' 4000]"


definition exPaused :: world where
  "exPaused = run 0 [idle 3001 3001, press ''s'' 4000, press ''p'' 9000]"

definition exHelp :: world where
  "exHelp = run 0 [idle 3001 3001, press ''x'' 3500]"

section \<open>Helper facts\<close>

lemmas geometry = screenWidth_def screenHeight_def borderThickness_def totalPerimeter_def

lemma borderSegments_total: "segmentsTotal (borderSegments f) = min (max 0 f) 720"
  by (simp add: segmentsTotal_def borderSegments_def edge_def geometry Let_def min_def max_def)

lemma borderSegments_nonneg:
  "borderSegments f = (a, b, c, d) \<Longrightarrow> 0 \<le> a \<and> 0 \<le> b \<and> 0 \<le> c \<and> 0 \<le> d"
  by (auto simp add: borderSegments_def edge_def geometry Let_def min_def split: if_splits)

lemma borderSegments_empty: "f \<le> 0 \<Longrightarrow> borderSegments f = (0, 0, 0, 0)"
  by (simp add: borderSegments_def edge_def geometry Let_def)

lemma sint_minus_60:
  fixes d :: i32
  assumes "60 < sint d"
  shows "sint (d - 60) = sint d - 60"
proof -
  have upper: "sint d < 2 ^ 31" using sint_lt [of d] by simp
  have "sint (d - 60) = signed_take_bit 31 (sint d - sint (60 :: i32))"
    by (simp add: sint_word_ariths)
  also have "\<dots> = signed_take_bit 31 (sint d - 60)" by simp
  also have "\<dots> = sint d - 60" using assms upper
    by (intro signed_take_bit_int_eq_self) auto
  finally show ?thesis .
qed

text \<open>
  The guard of the decrement keeps a duration that is a positive multiple of 60 at or
  above 60: it steps down by 60 and stops at 60.
\<close>

lemma decrement_on_multiples_of_60:
  "state w = STOPPED \<Longrightarrow> sint (currentDuration w) = 60 * k \<Longrightarrow> 1 \<le> k \<Longrightarrow>
   sint (currentDuration (fst (keyCommand now (CHR ''-'') (w, r)))) = 60 * max 1 (k - 1)"
  by (cases "60 < sint (currentDuration w)")
     (auto simp add: keyCommand_def Let_def currentDuration_def drawUI_def word_sless_alt
        sint_minus_60 max_def)

section \<open>Phase completion and the session counter\<close>




section \<open>The border bar\<close>

text \<open>
  C2 at a full bar. With progress 1 the fill length is the whole of
  \<^verbatim>\<open>totalPerimeter\<close>, 726, but the four edges can take 234, 129, 234 and 123 only:
  the segments drawn add up to 720, six short of the perimeter the bar is scaled to.
\<close>

theorem borderSegments_full_bar:
  "totalPerimeter = 726 \<and> borderSegments totalPerimeter = (234, 129, 234, 123) \<and>
   segmentsTotal (borderSegments totalPerimeter) = 720"
  by (simp add: segmentsTotal_def borderSegments_def edge_def geometry)

section \<open>Adjusting the durations\<close>

text \<open>
  C3 from power-on. The focus duration starts at 30 seconds; one press of \<^verbatim>\<open>+\<close>
  makes it 90, and the following press of \<^verbatim>\<open>-\<close>, with the timer stopped, brings it
  back to 30, below the floor of 60.
\<close>

theorem decrement_below_floor_from_power_on:
  "focusDuration (run 0 [idle 3001 3001, press ''+'' 4000]) = 90 \<and>
   state (run 0 [idle 3001 3001, press ''+'' 4000]) = STOPPED \<and>
   focusDuration (run 0 [idle 3001 3001, press ''+'' 4000, press ''-'' 5000]) = 30 \<and>
   (30 :: i32) <s 60"
  by code_simp

section \<open>A clock reading behind the start\<close>

text \<open>
  C4, as the code has it. The elapsed time is the unsigned 32-bit difference of the two
  clock readings, in whole seconds. For a Running timer and a reading \<open>now\<close> below
  \<^verbatim>\<open>startTime\<close> nothing is clamped: the difference wraps around, the elapsed seconds
  are \<open>(2 ^ 32 - (startTime - now)) div 1000\<close>, and the tick draws the current
  duration minus that.
\<close>

theorem tick_clock_behind_start:
  "state w = RUNNING \<Longrightarrow> now < startTime w \<Longrightarrow>
   unat (elapsed now w) = (2 ^ 32 - (unat (startTime w) - unat now)) div 1000 \<and>
   last (out (tick now now' w)) = DrawUI (currentDuration w - elapsed now w)"
proof -
  assume running: "state w = RUNNING" and behind: "now < startTime w"
  have "unat now < unat (startTime w)"
    using behind by (simp add: word_less_nat_alt)
  moreover have "unat (startTime w) < 2 ^ 32"
    using unsigned_less [of "startTime w"] by simp
  ultimately have "unat (now - startTime w) = 2 ^ 32 - (unat (startTime w) - unat now)"
    by (simp add: unat_sub_if')
  then have secs: "unat (elapsed now w) = (2 ^ 32 - (unat (startTime w) - unat now)) div 1000"
    by (simp add: elapsed_def unat_div)
  have "last (out (tick now now' w)) = DrawUI (currentDuration w - elapsed now w)"
    using running by (simp add: tick_def drawUI_def remaining_def Let_def)
  with secs show ?thesis by simp
qed

theorem tick_clock_behind_start_witness:
  "state exFocusRunning = RUNNING \<and> 3000 < startTime exFocusRunning \<and>
   unat (elapsed 3000 exFocusRunning) = 4294966 \<and>
   last (out (tick 3000 3000 exFocusRunning)) = DrawUI (30 - 4294966)"
proof -
  have running: "state exFocusRunning = RUNNING" by code_simp
  have behind: "3000 < startTime exFocusRunning" by code_simp
  have start: "startTime exFocusRunning = 4000" by code_simp
  have dur: "currentDuration exFocusRunning = 30" by code_simp
  have secs: "elapsed 3000 exFocusRunning = 4294966" by code_simp
  from tick_clock_behind_start [OF running behind, of 3000] start dur secs running behind
  show ?thesis by simp
qed

text \<open>
  C4 as the specification words it fails: one second behind the start, the elapsed
  time is 4294966 seconds, not zero, and the tick ends the Focus phase at once.
\<close>

theorem clock_behind_start_not_clamped:
  "state exFocusRunning = RUNNING \<and> 3000 < startTime exFocusRunning \<and>
   elapsed 3000 exFocusRunning = 4294966 \<and>
   state (tick 3000 3000 exFocusRunning) = STOPPED \<and>
   onBreak (tick 3000 3000 exFocusRunning)"
  by code_simp

section \<open>Invalid-state calls\<close>

text \<open>
  C5, as the code has it. No operation fails. \<^verbatim>\<open>startTimer\<close> on a Running timer and
  \<^verbatim>\<open>pauseTimer\<close> on a timer that is not Running change nothing. A \<^verbatim>\<open>+\<close> or \<^verbatim>\<open>-\<close>
  key while the timer is not Stopped changes no global and leaves \<^verbatim>\<open>recognized\<close> as
  it was, so a key event made of that key alone raises the help overlay. A \<^verbatim>\<open>-\<close> key
  on a Stopped timer whose current duration is 60 or less keeps the duration, redraws
  the screen and counts as recognized.
\<close>

theorem invalid_state_calls:
  "(state w = RUNNING \<longrightarrow> startTimer now w = w) \<and>
   (state w \<noteq> RUNNING \<longrightarrow> pauseTimer now w = w) \<and>
   (state w \<noteq> STOPPED \<and> (c = CHR ''+'' \<or> c = CHR ''-'') \<longrightarrow>
      keyCommand now c (w, r) = (w, r) \<and>
      handleKeys now [c] w = drawHelp (w\<lparr>showHelp := True\<rparr>)) \<and>
   (state w = STOPPED \<and> currentDuration w \<le>s 60 \<longrightarrow>
      keyCommand now (CHR ''-'') (w, r) = (drawUI (currentDuration w) w, True))"
proof (intro conjI impI)
  assume "state w = RUNNING"
  then show "startTimer now w = w" by (simp add: startTimer_def)
next
  assume "state w \<noteq> RUNNING"
  then show "pauseTimer now w = w" by (simp add: pauseTimer_def)
next
  assume busy: "state w \<noteq> STOPPED \<and> (c = CHR ''+'' \<or> c = CHR ''-'')"
  then show "keyCommand now c (w, r) = (w, r)"
    by (auto simp add: keyCommand_def Let_def)
  from busy show "handleKeys now [c] w = drawHelp (w\<lparr>showHelp := True\<rparr>)"
    by (auto simp add: handleKeys_def keyCommand_def Let_def)
next
  assume "state w = STOPPED \<and> currentDuration w \<le>s 60"
  then show "keyCommand now (CHR ''-'') (w, r) = (drawUI (currentDuration w) w, True)"
    by (auto simp add: keyCommand_def Let_def currentDuration_def word_sless_alt word_sle_eq)
qed

theorem invalid_state_calls_witness:
  "state exFocusRunning = RUNNING \<and> startTimer 5000 exFocusRunning = exFocusRunning \<and>
   state exStopped \<noteq> RUNNING \<and> pauseTimer 5000 exStopped = exStopped \<and>
   state exFocusRunning \<noteq> STOPPED \<and>
   keyCommand 5000 (CHR ''+'') (exFocusRunning, False) = (exFocusRunning, False) \<and>
   handleKeys 5000 ''+'' exFocusRunning = drawHelp (exFocusRunning\<lparr>showHelp := True\<rparr>) \<and>
   state exStopped = STOPPED \<and> currentDuration exStopped \<le>s 60 \<and>
   keyCommand 5000 (CHR ''-'') (exStopped, False) = (drawUI 30 exStopped, True)"
proof -
  have running: "state exFocusRunning = RUNNING" by code_simp
  have stopped: "state exStopped = STOPPED" by code_simp
  have dur: "currentDuration exStopped = 30" by code_simp
  have low: "currentDuration exStopped \<le>s 60" by code_simp
  note a = invalid_state_calls [of exFocusRunning 5000 "CHR ''+''" False]
  note b = invalid_state_calls [of exStopped 5000 "CHR ''-''" False]
  from a running have
    "startTimer 5000 exFocusRunning = exFocusRunning"
    "keyCommand 5000 (CHR ''+'') (exFocusRunning, False) = (exFocusRunning, False)"
    "handleKeys 5000 ''+'' exFocusRunning = drawHelp (exFocusRunning\<lparr>showHelp := True\<rparr>)"
    by simp_all
  moreover from b stopped low dur have
    "pauseTimer 5000 exStopped = exStopped"
    "keyCommand 5000 (CHR ''-'') (exStopped, False) = (drawUI 30 exStopped, True)"
    by simp_all
  ultimately show ?thesis using running stopped low by simp
qed

text \<open>
  C5 as the specification words it fails: \<^verbatim>\<open>+\<close> pressed while the timer runs is not
  silent. The help overlay comes up, which the same iteration without a key does not do.
\<close>

theorem adjust_while_running_raises_help:
  "state exFocusRunning \<noteq> STOPPED \<and> \<not> showHelp exFocusRunning \<and>
   showHelp (loop (press ''+'' 5000) exFocusRunning) \<and>
   out (loop (press ''+'' 5000) exFocusRunning) = out exFocusRunning @ [DrawHelp, DrawUI 29] \<and>
   out (loop (idle 5000 5000) exFocusRunning) = out exFocusRunning @ [DrawUI 29]"
  by code_simp

section \<open>Pause and resume\<close>

text \<open>
  C6. For a Running timer, \<^verbatim>\<open>pauseTimer\<close> and then \<^verbatim>\<open>startTimer\<close> at the same clock
  reading give a Running timer with the start instant it had, so the remaining time at
  any instant \<open>t\<close> is what it was before the pause.
\<close>

theorem pause_start_roundtrip:
  "state w = RUNNING \<Longrightarrow>
   state (startTimer now (pauseTimer now w)) = RUNNING \<and>
   startTime (startTimer now (pauseTimer now w)) = startTime w \<and>
   remaining t (startTimer now (pauseTimer now w)) = remaining t w"
  by (simp add: startTimer_def pauseTimer_def remaining_def elapsed_def currentDuration_def)

theorem pause_start_roundtrip_witness:
  "state exFocusRunning = RUNNING \<and>
   state (startTimer 9000 (pauseTimer 9000 exFocusRunning)) = RUNNING \<and>
   startTime (startTimer 9000 (pauseTimer 9000 exFocusRunning)) = 4000 \<and>
   remaining 9000 (startTimer 9000 (pauseTimer 9000 exFocusRunning)) = 25"
proof -
  have running: "state exFocusRunning = RUNNING" by code_simp
  have start: "startTime exFocusRunning = 4000" by code_simp
  have left: "remaining 9000 exFocusRunning = 25" by code_simp
  from pause_start_roundtrip [OF running, of 9000 9000] running start left
  show ?thesis by simp
qed

section \<open>After a completion tick\<close>

text \<open>
  C7, as the code has it. A tick that finds the countdown expired flips the phase and
  keeps both durations. With \<^verbatim>\<open>autoStartNext\<close> set the timer stays Running, its start
  instant is the clock read after the alert, and the remaining time at that instant is
  the new phase's full duration. With \<^verbatim>\<open>autoStartNext\<close> clear the timer is Stopped;
  the remaining value of that tick, which it draws, is the expired one, and the new
  phase's full duration is what the next \<^verbatim>\<open>startTimer\<close> counts down from.
\<close>

theorem tick_after_completion:
  "state w = RUNNING \<Longrightarrow> remaining now w \<le>s 0 \<Longrightarrow> w' = tick now now' w \<Longrightarrow>
   onBreak w' = (\<not> onBreak w) \<and>
   focusDuration w' = focusDuration w \<and> breakDuration w' = breakDuration w \<and>
   (autoStartNext w \<longrightarrow>
      state w' = RUNNING \<and> startTime w' = now' \<and> remaining now' w' = currentDuration w') \<and>
   (\<not> autoStartNext w \<longrightarrow>
      state w' = STOPPED \<and> last (out w') = DrawUI (remaining now w) \<and>
      remaining t (startTimer t w') = currentDuration w')"
  by (simp add: tick_def phaseComplete_def playAlert_def drawUI_def Let_def
        remaining_def elapsed_def currentDuration_def startTimer_def)

theorem tick_after_completion_witness:
  "state exAutoRunning = RUNNING \<and> remaining 34000 exAutoRunning \<le>s 0 \<and>
   autoStartNext exAutoRunning \<and>
   state (tick 34000 37000 exAutoRunning) = RUNNING \<and>
   onBreak (tick 34000 37000 exAutoRunning) \<and>
   startTime (tick 34000 37000 exAutoRunning) = 37000 \<and>
   remaining 37000 (tick 34000 37000 exAutoRunning) = 12 \<and>
   state exFocusRunning = RUNNING \<and> remaining 34000 exFocusRunning \<le>s 0 \<and>
   \<not> autoStartNext exFocusRunning \<and>
   state (tick 34000 37000 exFocusRunning) = STOPPED \<and>
   onBreak (tick 34000 37000 exFocusRunning) \<and>
   last (out (tick 34000 37000 exFocusRunning)) = DrawUI 0 \<and>
   remaining 40000 (startTimer 40000 (tick 34000 37000 exFocusRunning)) = 12"
proof -
  have ra: "state exAutoRunning = RUNNING" by code_simp
  have ea: "remaining 34000 exAutoRunning \<le>s 0" by code_simp
  have aa: "autoStartNext exAutoRunning" by code_simp
  have fa: "\<not> onBreak exAutoRunning" by code_simp
  have da: "breakDuration exAutoRunning = 12" by code_simp
  have rf: "state exFocusRunning = RUNNING" by code_simp
  have ef: "remaining 34000 exFocusRunning \<le>s 0" by code_simp
  have zf: "remaining 34000 exFocusRunning = 0" by code_simp
  have af: "\<not> autoStartNext exFocusRunning" by code_simp
  have ff: "\<not> onBreak exFocusRunning" by code_simp
  have df: "breakDuration exFocusRunning = 12" by code_simp
  from tick_after_completion [OF ra ea refl, of 37000] aa fa da have restarted:
    "state (tick 34000 37000 exAutoRunning) = RUNNING"
    "onBreak (tick 34000 37000 exAutoRunning)"
    "startTime (tick 34000 37000 exAutoRunning) = 37000"
    "remaining 37000 (tick 34000 37000 exAutoRunning) = 12"
    by (simp_all add: currentDuration_def)
  from tick_after_completion [OF rf ef refl, of 37000 40000] af ff df zf have manual:
    "state (tick 34000 37000 exFocusRunning) = STOPPED"
    "onBreak (tick 34000 37000 exFocusRunning)"
    "last (out (tick 34000 37000 exFocusRunning)) = DrawUI 0"
    "remaining 40000 (startTimer 40000 (tick 34000 37000 exFocusRunning)) = 12"
    by (simp_all add: currentDuration_def)
  from ra ea aa rf ef af restarted manual show ?thesis by simp
qed

text \<open>
  C7 as the specification words it fails: without auto-start, the remaining value of
  the completion tick is 0 while the new phase, Break, lasts 12 seconds.
\<close>

theorem stopped_after_completion_shows_expired:
  "state exFocusRunning = RUNNING \<and> remaining 34000 exFocusRunning \<le>s 0 \<and>
   \<not> autoStartNext exFocusRunning \<and>
   state (tick 34000 37000 exFocusRunning) = STOPPED \<and>
   last (out (tick 34000 37000 exFocusRunning)) = DrawUI 0 \<and>
   currentDuration (tick 34000 37000 exFocusRunning) = 12"
  by code_simp

section \<open>One transition per tick\<close>

text \<open>
  C8. A tick of a Running timer whose remaining time is zero or negative, however far
  below zero, flips the phase once, sounds one alert (three tones) and moves the session
  counter by at most one; a remaining time of exactly zero is such a tick. Every other
  tick keeps the phase, the timer state and the counter, and sounds nothing.
\<close>

theorem tick_one_transition:
  "(state w = RUNNING \<and> remaining now w \<le>s 0 \<longrightarrow>
      onBreak (tick now now' w) = (\<not> onBreak w) \<and>
      out (tick now now' w) =
        out w @ replicate 3 (Tone 1000 300) @ [DrawUI (remaining now w)] \<and>
      (sessionsCompleted (tick now now' w) = sessionsCompleted w \<or>
       sessionsCompleted (tick now now' w) = sessionsCompleted w + 1)) \<and>
   (state w = RUNNING \<and> remaining now w = 0 \<longrightarrow>
      onBreak (tick now now' w) = (\<not> onBreak w)) \<and>
   (\<not> (state w = RUNNING \<and> remaining now w \<le>s 0) \<longrightarrow>
      onBreak (tick now now' w) = onBreak w \<and> state (tick now now' w) = state w \<and>
      sessionsCompleted (tick now now' w) = sessionsCompleted w \<and>
      filter isTone (out (tick now now' w)) = filter isTone (out w))"
  by (cases "state w")
     (auto simp add: tick_def phaseComplete_def playAlert_def drawUI_def Let_def isTone_def)

theorem tick_one_transition_witness:
  "state exAutoRunning = RUNNING \<and> remaining 104000 exAutoRunning \<le>s 0 \<and>
   \<not> onBreak exAutoRunning \<and> onBreak (tick 104000 107000 exAutoRunning) \<and>
   out (tick 104000 107000 exAutoRunning) =
     out exAutoRunning @ replicate 3 (Tone 1000 300) @ [DrawUI (30 - 100)] \<and>
   remaining 34000 exFocusRunning = 0 \<and> onBreak (tick 34000 37000 exFocusRunning) \<and>
   \<not> remaining 33000 exFocusRunning \<le>s 0 \<and>
   \<not> onBreak (tick 33000 33000 exFocusRunning) \<and>
   state (tick 33000 33000 exFocusRunning) = RUNNING \<and>
   sessionsCompleted (tick 33000 33000 exFocusRunning) = 0 \<and>
   filter isTone (out (tick 33000 33000 exFocusRunning)) = []"
proof -
  have ra: "state exAutoRunning = RUNNING" by code_simp
  have ea: "remaining 104000 exAutoRunning \<le>s 0" by code_simp
  have va: "remaining 104000 exAutoRunning = 30 - 100" by code_simp
  have fa: "\<not> onBreak exAutoRunning" by code_simp
  have rf: "state exFocusRunning = RUNNING" by code_simp
  have zf: "remaining 34000 exFocusRunning = 0" by code_simp
  have pf: "\<not> remaining 33000 exFocusRunning \<le>s 0" by code_simp
  have ff: "\<not> onBreak exFocusRunning" by code_simp
  have sf: "sessionsCompleted exFocusRunning = 0" by code_simp
  have qf: "filter isTone (out exFocusRunning) = []" by code_simp
  from tick_one_transition [of exAutoRunning 104000 107000] ra ea va fa have late:
    "onBreak (tick 104000 107000 exAutoRunning)"
    "out (tick 104000 107000 exAutoRunning) =
       out exAutoRunning @ replicate 3 (Tone 1000 300) @ [DrawUI (30 - 100)]"
    by simp_all
  from tick_one_transition [of exFocusRunning 34000 37000] rf zf ff have zero:
    "onBreak (tick 34000 37000 exFocusRunning)"
    by simp
  from tick_one_transition [of exFocusRunning 33000 33000] rf pf ff sf qf have early:
    "\<not> onBreak (tick 33000 33000 exFocusRunning)"
    "state (tick 33000 33000 exFocusRunning) = RUNNING"
    "sessionsCompleted (tick 33000 33000 exFocusRunning) = 0"
    "filter isTone (out (tick 33000 33000 exFocusRunning)) = []"
    by simp_all
  from ra ea fa zf pf late zero early show ?thesis by simp
qed

section \<open>Reset\<close>

text \<open>
  C9, as the code has it. \<^verbatim>\<open>resetTimer\<close> makes the timer Stopped in the Focus phase
  and sets \<^verbatim>\<open>startTime\<close> to the clock; it leaves \<^verbatim>\<open>pausedTime\<close> as it is, and also
  \<^verbatim>\<open>sessionsCompleted\<close>, \<^verbatim>\<open>autoStartNext\<close> and both durations. The stale
  \<^verbatim>\<open>pausedTime\<close> is not read again: the next \<^verbatim>\<open>startTimer\<close> starts at the clock, with
  the full focus duration remaining.
\<close>

theorem resetTimer_effect:
  "state (resetTimer now w) = STOPPED \<and> \<not> onBreak (resetTimer now w) \<and>
   startTime (resetTimer now w) = now \<and> pausedTime (resetTimer now w) = pausedTime w \<and>
   sessionsCompleted (resetTimer now w) = sessionsCompleted w \<and>
   autoStartNext (resetTimer now w) = autoStartNext w \<and>
   focusDuration (resetTimer now w) = focusDuration w \<and>
   breakDuration (resetTimer now w) = breakDuration w \<and>
   startTime (startTimer t (resetTimer now w)) = t \<and>
   remaining t (startTimer t (resetTimer now w)) = focusDuration w"
  by (simp add: resetTimer_def drawUI_def startTimer_def remaining_def elapsed_def
        currentDuration_def Let_def)

text \<open>
  C9 as the specification words it fails: a reset of a paused timer keeps the 5000 ms
  captured at the pause, and the start instant becomes the clock, not zero.
\<close>

theorem reset_keeps_pausedTime:
  "state exPaused = PAUSED \<and> pausedTime exPaused = 5000 \<and>
   pausedTime (resetTimer 10000 exPaused) = 5000 \<and>
   startTime (resetTimer 10000 exPaused) = 10000"
  by code_simp

section \<open>The help overlay\<close>

text \<open>
  C10. Once the splash screen is over, a key event that arrives while the help overlay
  is showing only takes the overlay down and redraws the timer screen: whatever its
  characters are, every other global keeps its value, and the countdown step of that
  iteration is skipped as well.
\<close>

theorem help_overlay_consumes_key_event:
  "\<not> showSplash w \<Longrightarrow> showHelp w \<Longrightarrow> keys i = Some word \<Longrightarrow>
   loop i w = w\<lparr>showHelp := False, out := out w @ [DrawUI (currentDuration w)]\<rparr>"
  by (simp add: loop_def drawUI_def)

theorem help_overlay_consumes_key_event_witness:
  "\<not> showSplash exHelp \<and> showHelp exHelp \<and> keys (press ''s'' 4000) = Some ''s'' \<and>
   state exHelp = STOPPED \<and>
   state (loop (press ''s'' 4000) exHelp) = STOPPED \<and>
   \<not> showHelp (loop (press ''s'' 4000) exHelp) \<and>
   state (loop (press ''s'' 4000) exStopped) = RUNNING"
proof -
  have splash: "\<not> showSplash exHelp" by code_simp
  have overlay: "showHelp exHelp" by code_simp
  have key: "keys (press ''s'' 4000) = Some ''s''" by code_simp
  have stopped: "state exHelp = STOPPED" by code_simp
  have started: "state (loop (press ''s'' 4000) exStopped) = RUNNING" by code_simp
  from help_overlay_consumes_key_event [OF splash overlay key] stopped have
    "state (loop (press ''s'' 4000) exHelp) = STOPPED"
    "\<not> showHelp (loop (press ''s'' 4000) exHelp)"
    by simp_all
  with splash overlay key stopped started show ?thesis by simp
qed

end
